theory Spec2Isabelle
  imports Main "HOL-Library.Word"
begin

section \<open>The request middleware of \<^verbatim>\<open>handlers/mw.go\<close>\<close>

text \<open>
  The file under verification holds the authorisation filters (\<^verbatim>\<open>loggedIn\<close>,
  \<^verbatim>\<open>loggedInOrPublic\<close>, \<^verbatim>\<open>noSubSites\<close>) and the middleware \<^verbatim>\<open>addctx\<close>, which
  answers the status probe, sets the request's deadline, binds the database handle and
  loads the site of the request's host.  Everything the Go code does to its surroundings
  is explicit here: the response writer is a record that the writer calls update, the
  calls to collaborators are events of a trace, a Go panic is a flag of the result, and
  what the database, the clock and the JSON encoder answer is read from a record
  \<open>env\<close>.
\<close>

subsection \<open>Data\<close>

text \<open>\<^verbatim>\<open>goatcounter.Site\<close>: \<^verbatim>\<open>Parent *int64\<close> is a nullable pointer, \<^verbatim>\<open>Settings.Public\<close> a flag.\<close>

record site_settings =
  Public :: bool

record site =
  site_ID :: "64 word"
  site_Parent :: "64 word option"
  site_Settings :: site_settings

text \<open>\<^verbatim>\<open>goatcounter.User\<close>: \<^verbatim>\<open>ID int64\<close>.\<close>

record user =
  user_ID :: "64 word"

text \<open>
  The \<^verbatim>\<open>zdb.DB\<close> handed to \<^verbatim>\<open>addctx\<close> is an interface value; whether its dynamic type
  also implements \<^verbatim>\<open>zdb.DBCloser\<close> decides the type assertion of line 120.
\<close>

record db_handle =
  db_name :: string
  implements_DBCloser :: bool

datatype ctx_db = PlainDB db_handle | ExplainDB db_handle string

text \<open>
  The values a request's \<^verbatim>\<open>context.Context\<close> carries: the time-out in seconds (absent
  when the context has no deadline), the database, the site and the user.
\<close>

record go_context =
  ctx_timeout :: "nat option"
  ctx_db :: "ctx_db option"
  ctx_site :: "site option"
  ctx_user :: "user option"

record request =
  req_Path :: string
  req_Host :: string
  req_Cookies :: "(string \<times> string) list"
  req_Context :: go_context

text \<open>
  Errors.  A database lookup fails with \<^verbatim>\<open>sql.ErrNoRows\<close> (possibly wrapped) or with
  some other error; \<^verbatim>\<open>guru.Errorf(code, ...)\<close> builds an error that carries an HTTP status.
\<close>

datatype db_error = ErrNoRows | ErrOther string

datatype error = DBError db_error | Guru nat string

text \<open>\<^verbatim>\<open>ctx.Err()\<close> of a context that is done.\<close>

datatype ctx_err = Canceled | DeadlineExceeded

subsection \<open>The response writer\<close>

text \<open>
  An \<^verbatim>\<open>http.ResponseWriter\<close>: the status written (0 while none is), the header map and
  the body written so far.  \<open>is_statusWriter\<close> tells whether the writer's dynamic type
  has the method \<^verbatim>\<open>Status() int\<close> of the interface \<^verbatim>\<open>statusWriter\<close> (line 70).
  As in \<^verbatim>\<open>net/http\<close>, the first status written stands and a \<^verbatim>\<open>Write\<close> before any
  \<^verbatim>\<open>WriteHeader\<close> writes status 200.
\<close>

record response_writer =
  is_statusWriter :: bool
  Status :: nat
  Header :: "string \<rightharpoonup> string"
  Body :: string

definition Header_Set :: "string \<Rightarrow> string \<Rightarrow> response_writer \<Rightarrow> response_writer" where
  "Header_Set k v w = w\<lparr>Header := (Header w)(k \<mapsto> v)\<rparr>"

definition WriteHeader :: "nat \<Rightarrow> response_writer \<Rightarrow> response_writer" where
  "WriteHeader code w = (if Status w = 0 then w\<lparr>Status := code\<rparr> else w)"

definition Write :: "string \<Rightarrow> response_writer \<Rightarrow> response_writer" where
  "Write b w = (let w' = WriteHeader 200 w in w'\<lparr>Body := Body w' @ b\<rparr>)"

text \<open>
  \<^verbatim>\<open>http.Error(w, error, code)\<close>: two headers, the status, and the text followed by a
  newline (\<^verbatim>\<open>fmt.Fprintln\<close>).
\<close>

definition http_Error :: "response_writer \<Rightarrow> string \<Rightarrow> nat \<Rightarrow> response_writer" where
  "http_Error w err code =
     Write (err @ [CHR 0x0A])
       (WriteHeader code
         (Header_Set ''X-Content-Type-Options'' ''nosniff''
           (Header_Set ''Content-Type'' ''text/plain; charset=utf-8'' w)))"

text \<open>What a handler does to the writer, in order.\<close>

datatype w_call = CallHeaderSet string string | CallWriteHeader nat | CallWrite string

fun apply_call :: "response_writer \<Rightarrow> w_call \<Rightarrow> response_writer" where
  "apply_call w (CallHeaderSet k v) = Header_Set k v w"
| "apply_call w (CallWriteHeader c) = WriteHeader c w"
| "apply_call w (CallWrite b) = Write b w"

definition apply_calls :: "w_call list \<Rightarrow> response_writer \<Rightarrow> response_writer" where
  "apply_calls cs w = foldl apply_call w cs"

text \<open>
  The downstream \<^verbatim>\<open>http.Handler\<close>: given the writer and the request it makes writer
  calls and then returns (\<open>False\<close>) or panics (\<open>True\<close>).
\<close>

type_synonym handler = "response_writer \<Rightarrow> request \<Rightarrow> w_call list \<times> bool"

subsection \<open>The surroundings\<close>

text \<open>
  \<open>cfg_Prod\<close> and \<open>cfg_Version\<close> are \<^verbatim>\<open>cfg.Prod\<close> and \<^verbatim>\<open>cfg.Version\<close>; \<open>started\<close> is the
  value of \<^verbatim>\<open>goatcounter.Now()\<close> that \<^verbatim>\<open>addctx\<close> captured, \<open>Now\<close> its value during the
  request, \<open>LastMemstore\<close> the value of \<^verbatim>\<open>cron.LastMemstore.Get()\<close> (times in
  nanoseconds); the two formatters and \<^verbatim>\<open>json.Marshal\<close> are library functions
  (\<open>Inl\<close> is the error's text).  \<open>ByHost\<close> and \<open>UnscopedList\<close> are the answers of the
  database to \<^verbatim>\<open>Site.ByHost\<close> and \<^verbatim>\<open>Sites.UnscopedList\<close>.  \<open>ctx_Err\<close> is what
  \<^verbatim>\<open>ctx.Err()\<close> of the deadline context would return when the deferred function starts:
  the clock and the parent context decide it, not the code.
\<close>

record env =
  cfg_Prod :: bool
  cfg_Version :: string
  started :: int
  Now :: int
  LastMemstore :: int
  Duration_String :: "int \<Rightarrow> string"
  Format_RFC3339Nano :: "int \<Rightarrow> string"
  json_Marshal :: "(string \<times> string) list \<Rightarrow> string + string"
  ByHost :: "string \<Rightarrow> db_error + site"
  UnscopedList :: "db_error + site list"
  ctx_Err :: "ctx_err option"

text \<open>The calls to collaborators that a request makes, in order.\<close>

datatype event =
    EvWithTimeout nat
  | EvCancel
  | EvBindDB ctx_db
  | EvByHost string
  | EvUnscopedList
  | EvLogError db_error
  | EvErrPage error
  | EvServeNext go_context
  | EvFlash string
  | EvLogErrorf string

record result =
  res_w :: response_writer
  res_trace :: "event list"
  res_panic :: bool

subsection \<open>Library functions the middleware calls\<close>

text \<open>\<^verbatim>\<open>strings.HasPrefix(s, prefix)\<close>.\<close>

definition HasPrefix :: "string \<Rightarrow> string \<Rightarrow> bool" where
  "HasPrefix s p = (take (length p) s = p)"


text \<open>
  \<^verbatim>\<open>context.WithTimeout(parent, d)\<close>: the deadline is the earlier of the parent's and the
  new one.  \<^verbatim>\<open>cancel()\<close> makes a live context \<open>Canceled\<close> and leaves a done one as it is.
\<close>

definition WithTimeout :: "go_context \<Rightarrow> nat \<Rightarrow> go_context" where
  "WithTimeout parent t =
     parent\<lparr>ctx_timeout := Some (case ctx_timeout parent of None \<Rightarrow> t | Some d \<Rightarrow> min d t)\<rparr>"

definition cancel :: "ctx_err option \<Rightarrow> ctx_err" where
  "cancel e = (case e of None \<Rightarrow> Canceled | Some x \<Rightarrow> x)"

text \<open>\<^verbatim>\<open>zdb.With(ctx, db)\<close> and \<^verbatim>\<open>goatcounter.WithSite(ctx, &s)\<close>.\<close>

definition zdb_With :: "go_context \<Rightarrow> ctx_db \<Rightarrow> go_context" where
  "zdb_With ctx d = ctx\<lparr>ctx_db := Some d\<rparr>"

definition WithSite :: "go_context \<Rightarrow> site \<Rightarrow> go_context" where
  "WithSite ctx s = ctx\<lparr>ctx_site := Some s\<rparr>"

text \<open>\<^verbatim>\<open>zdb.ErrNoRows(err)\<close>: is the error \<^verbatim>\<open>sql.ErrNoRows\<close>?\<close>

definition zdb_ErrNoRows :: "db_error \<Rightarrow> bool" where
  "zdb_ErrNoRows e = (e = ErrNoRows)"

text \<open>
  The verb \<^verbatim>\<open>%q\<close> of \<^verbatim>\<open>guru.Errorf\<close> formats a string as \<^verbatim>\<open>strconv.Quote\<close> does: between
  double quotes, with the double quote and the backslash escaped by a backslash, the
  printable ASCII characters as they are, and the control characters as \<^verbatim>\<open>\a \b \f \n
  \r \t \v\<close> or \<^verbatim>\<open>\xNN\<close>.  Bytes from 0x80 on are kept here as they are, which is what
  \<^verbatim>\<open>strconv.Quote\<close> does for printable runes; its escapes for the others are not modelled.
\<close>

definition hex_digit :: "nat \<Rightarrow> char" where
  "hex_digit n = ''0123456789abcdef'' ! (n mod 16)"

definition quote_byte :: "char \<Rightarrow> string" where
  "quote_byte c =
     (let n = (of_char c :: nat) in
      if n = 0x22 then [CHR 0x5C, CHR 0x22]
      else if n = 0x5C then [CHR 0x5C, CHR 0x5C]
      else if 0x20 \<le> n \<and> n < 0x7F then [c]
      else if n = 7 then [CHR 0x5C, CHR ''a'']
      else if n = 8 then [CHR 0x5C, CHR ''b'']
      else if n = 12 then [CHR 0x5C, CHR ''f'']
      else if n = 10 then [CHR 0x5C, CHR ''n'']
      else if n = 13 then [CHR 0x5C, CHR ''r'']
      else if n = 9 then [CHR 0x5C, CHR ''t'']
      else if n = 11 then [CHR 0x5C, CHR ''v'']
      else if n < 0x80 then [CHR 0x5C, CHR ''x'', hex_digit (n div 16), hex_digit n]
      else [c])"

definition Quote :: "string \<Rightarrow> string" where
  "Quote s = [CHR 0x22] @ concat (map quote_byte s) @ [CHR 0x22]"

text \<open>
  Modelled from the spec: \<^verbatim>\<open>zhttp.ErrPage\<close> is not in \<^verbatim>\<open>handlers/mw.go\<close>.  The spec's
  error taxonomy has the tenant-not-found error "user-facing, 400, includes offending
  host" and the internal lookup error "logged server-side, 500, opaque to caller": an
  error that carries a status is answered with that status and its message, any other
  error with status 500 and no text of the error.
\<close>

definition ErrPage :: "response_writer \<Rightarrow> error \<Rightarrow> response_writer" where
  "ErrPage w err =
     (case err of
        Guru code msg \<Rightarrow> Write msg (WriteHeader code w)
      | DBError e \<Rightarrow> WriteHeader 500 w)"

text \<open>
  Modelled from the spec: \<^verbatim>\<open>goatcounter.GetUser\<close> and the package's \<^verbatim>\<open>Site\<close> are not in
  \<^verbatim>\<open>handlers/mw.go\<close>.  The spec's request context carries "the resolved Tenant (nullable
  until resolved)" and a Principal that may be absent: both read the context.
\<close>

definition GetUser :: "go_context \<Rightarrow> user option" where
  "GetUser ctx = ctx_user ctx"

definition Site :: "go_context \<Rightarrow> site option" where
  "Site ctx = ctx_site ctx"

subsection \<open>The filters (lines 25 to 61)\<close>

text \<open>
  A filter returns \<^verbatim>\<open>nil\<close> (\<open>Pass\<close>) or an error (\<open>Abort\<close>); reading a field of the
  site when the context has none is a panic.  The second component is what the filter
  did besides: the flash message, the log line.
\<close>

datatype filter_outcome = Pass | Abort error | FilterPanic

definition redirect :: "filter_outcome \<times> event list" where
  "redirect = (Abort (Guru 303 ''/user/new''), [EvFlash ''Need to log in''])"

definition authenticated :: "user option \<Rightarrow> bool" where
  "authenticated u = (case u of None \<Rightarrow> False | Some x \<Rightarrow> 0 < sint (user_ID x))"

definition loggedIn :: "request \<Rightarrow> filter_outcome \<times> event list" where
  "loggedIn r =
     (if authenticated (GetUser (req_Context r)) then (Pass, []) else redirect)"

definition loggedInOrPublic :: "request \<Rightarrow> filter_outcome \<times> event list" where
  "loggedInOrPublic r =
     (if authenticated (GetUser (req_Context r)) then (Pass, [])
      else case Site (req_Context r) of
             None \<Rightarrow> (FilterPanic, [])
           | Some s \<Rightarrow> if Public (site_Settings s) then (Pass, []) else redirect)"

definition noSubSites :: "request \<Rightarrow> filter_outcome \<times> event list" where
  "noSubSites r =
     (case Site (req_Context r) of
        None \<Rightarrow> (FilterPanic, [])
      | Some s \<Rightarrow>
          if site_Parent s = None \<or> site_Parent s = Some 0 then (Pass, [])
          else (Abort (Guru 403 ''child sites can't access this''),
                [EvLogErrorf ''noSubSites'']))"

subsection \<open>\<^verbatim>\<open>addctx\<close> (lines 72 to 158)\<close>

text \<open>Lines 78 to 94: the answer to \<^verbatim>\<open>/status\<close>.\<close>

definition status_fields :: "env \<Rightarrow> (string \<times> string) list" where
  "status_fields e =
     [(''uptime'', Duration_String e (Now e - started e)),
      (''version'', cfg_Version e),
      (''last_persisted_at'', Format_RFC3339Nano e (LastMemstore e))]"

definition status_page :: "env \<Rightarrow> response_writer \<Rightarrow> response_writer" where
  "status_page e w =
     (case json_Marshal e (status_fields e) of
        Inl err \<Rightarrow> http_Error w err 500
      | Inr j \<Rightarrow> Write j (WriteHeader 200 (Header_Set ''Content-Type'' ''application/json'' w)))"

text \<open>Lines 97 to 103: the time-out \<^verbatim>\<open>t\<close>, in seconds.\<close>

definition timeout_t :: "string \<Rightarrow> nat" where
  "timeout_t path =
     (if HasPrefix path ''/admin'' then 120
      else if path = ''/'' then 11
      else 3)"

text \<open>
  Lines 106 to 114, the deferred function: after \<^verbatim>\<open>cancel()\<close>, a context whose deadline
  had passed still reports \<open>DeadlineExceeded\<close>.
\<close>

definition timeout_guard :: "ctx_err option \<Rightarrow> response_writer \<Rightarrow> response_writer" where
  "timeout_guard e w =
     (if cancel e = DeadlineExceeded then
        (if \<not> is_statusWriter w \<or> Status w = 0
         then Write ''Server timed out'' (WriteHeader 504 w)
         else w)
      else w)"

text \<open>
  Lines 117 to 122: the database is bound to the deadline context; outside production a
  cookie \<^verbatim>\<open>debug-explain\<close> replaces it by the explaining one, built from
  \<^verbatim>\<open>db.(zdb.DBCloser)\<close>: \<open>Inl\<close> is the panic of that type assertion, with the events
  before it.
\<close>

definition bind_db ::
  "env \<Rightarrow> db_handle \<Rightarrow> go_context \<Rightarrow> request \<Rightarrow> event list + (request \<times> event list)" where
  "bind_db e db ctx r =
     (let r1 = r\<lparr>req_Context := zdb_With ctx (PlainDB db)\<rparr>;
          tr1 = [EvBindDB (PlainDB db)]
      in if \<not> cfg_Prod e then
           (case map_of (req_Cookies r1) ''debug-explain'' of
              None \<Rightarrow> Inr (r1, tr1)
            | Some v \<Rightarrow>
                if implements_DBCloser db
                then Inr (r1\<lparr>req_Context := zdb_With ctx (ExplainDB db v)\<rparr>,
                          tr1 @ [EvBindDB (ExplainDB db v)])
                else Inl tr1)
         else Inr (r1, tr1))"

text \<open>
  Lines 126 to 139: the site of the host, and outside production the only site there
  is, whatever the host.
\<close>

definition load_site :: "env \<Rightarrow> string \<Rightarrow> (db_error + site) \<times> event list" where
  "load_site e host =
     (let res = ByHost e host; tr = [EvByHost host]
      in if \<not> cfg_Prod e then
           (case UnscopedList e of
              Inr [s] \<Rightarrow> (Inr s, tr @ [EvUnscopedList])
            | _ \<Rightarrow> (res, tr @ [EvUnscopedList]))
         else (res, tr))"

text \<open>Line 155: the downstream handler runs.\<close>

definition serve :: "handler \<Rightarrow> response_writer \<Rightarrow> request \<Rightarrow> result" where
  "serve next w r =
     (case next w r of
        (calls, panics) \<Rightarrow>
          \<lparr>res_w = apply_calls calls w,
           res_trace = [EvServeNext (req_Context r)],
           res_panic = panics\<rparr>)"

text \<open>Lines 116 to 155: what runs between the \<^verbatim>\<open>defer\<close> and the deferred function.\<close>

definition addctx_body ::
  "env \<Rightarrow> db_handle \<Rightarrow> bool \<Rightarrow> handler \<Rightarrow> response_writer \<Rightarrow> go_context \<Rightarrow> request \<Rightarrow> result" where
  "addctx_body e db loadSite next w ctx r =
     (case bind_db e db ctx r of
        Inl tr \<Rightarrow> \<lparr>res_w = w, res_trace = tr, res_panic = True\<rparr>
      | Inr (r1, tr1) \<Rightarrow>
          if loadSite then
            (case load_site e (req_Host r1) of
               (Inl err, tr2) \<Rightarrow>
                 if zdb_ErrNoRows err then
                   (let err' = Guru 400 (''no site at this domain ('' @ Quote (req_Host r1) @ '')'')
                    in \<lparr>res_w = ErrPage w err',
                        res_trace = tr1 @ tr2 @ [EvErrPage err'],
                        res_panic = False\<rparr>)
                 else
                   \<lparr>res_w = ErrPage w (DBError err),
                    res_trace = tr1 @ tr2 @ [EvLogError err, EvErrPage (DBError err)],
                    res_panic = False\<rparr>
             | (Inr s, tr2) \<Rightarrow>
                 (let b = serve next w (r1\<lparr>req_Context := WithSite (req_Context r1) s\<rparr>)
                  in b\<lparr>res_trace := tr1 @ tr2 @ res_trace b\<rparr>))
          else
            (let b = serve next w r1 in b\<lparr>res_trace := tr1 @ res_trace b\<rparr>))"

definition addctx ::
  "env \<Rightarrow> db_handle \<Rightarrow> bool \<Rightarrow> handler \<Rightarrow> response_writer \<Rightarrow> request \<Rightarrow> result" where
  "addctx e db loadSite next w r =
     (if req_Path r = ''/status'' then
        \<lparr>res_w = status_page e w, res_trace = [], res_panic = False\<rparr>
      else
        (let t = timeout_t (req_Path r);
             ctx = WithTimeout (req_Context r) t;
             b = addctx_body e db loadSite next w ctx r
         in \<lparr>res_w = timeout_guard (ctx_Err e) (res_w b),
             res_trace = EvWithTimeout t # res_trace b @ [EvCancel],
             res_panic = res_panic b\<rparr>))"

subsection \<open>Characters that \<^verbatim>\<open>%q\<close> copies\<close>


subsection \<open>Example requests\<close>

definition the_site :: site where
  "the_site = \<lparr>site_ID = 1, site_Parent = None, site_Settings = \<lparr>Public = True\<rparr>\<rparr>"

definition child_site :: site where
  "child_site = \<lparr>site_ID = 2, site_Parent = Some 1, site_Settings = \<lparr>Public = False\<rparr>\<rparr>"

text \<open>
  A development setup: one site in the database, under another host name than the one
  the site \<open>child_site\<close> answers to.  The JSON encoder is a stand-in.
\<close>

definition dev_env :: env where
  "dev_env =
     \<lparr>cfg_Prod = False, cfg_Version = ''dev'', started = 0, Now = 1000000000,
      LastMemstore = 0,
      Duration_String = (\<lambda>d. ''1s''),
      Format_RFC3339Nano = (\<lambda>t. ''1970-01-01T00:00:00Z''),
      json_Marshal = (\<lambda>kvs. Inr (concat (map (\<lambda>(k, v). k @ ''='' @ v @ '';'') kvs))),
      ByHost = (\<lambda>h. if h = ''stats.example.com'' then Inr child_site else Inl ErrNoRows),
      UnscopedList = Inr [the_site],
      ctx_Err = None\<rparr>"

definition prod_env :: env where
  "prod_env = dev_env\<lparr>cfg_Prod := True\<rparr>"

definition down_env :: env where
  "down_env = prod_env\<lparr>ByHost := (\<lambda>h. Inl (ErrOther ''connection refused''))\<rparr>"

definition late_env :: env where
  "late_env = dev_env\<lparr>ctx_Err := Some DeadlineExceeded\<rparr>"

definition pool_db :: db_handle where
  "pool_db = \<lparr>db_name = ''goatcounter'', implements_DBCloser = True\<rparr>"

definition bare_db :: db_handle where
  "bare_db = \<lparr>db_name = ''goatcounter'', implements_DBCloser = False\<rparr>"

definition new_writer :: response_writer where
  "new_writer = \<lparr>is_statusWriter = True, Status = 0, Header = Map.empty, Body = []\<rparr>"

definition bare_writer :: response_writer where
  "bare_writer = \<lparr>is_statusWriter = False, Status = 0, Header = Map.empty, Body = []\<rparr>"

definition background :: go_context where
  "background = \<lparr>ctx_timeout = None, ctx_db = None, ctx_site = None, ctx_user = None\<rparr>"

definition get :: "string \<Rightarrow> string \<Rightarrow> request" where
  "get path host =
     \<lparr>req_Path = path, req_Host = host, req_Cookies = [], req_Context = background\<rparr>"

definition explain_request :: request where
  "explain_request =
     (get ''/'' ''localhost:8081'')\<lparr>req_Cookies := [(''debug-explain'', ''1'')]\<rparr>"

definition visitor :: "site \<Rightarrow> request" where
  "visitor s =
     (get ''/'' ''stats.example.com'')
       \<lparr>req_Context := background\<lparr>ctx_site := Some s, ctx_user := Some \<lparr>user_ID = 0\<rparr>\<rparr>\<rparr>"

definition quoted_host :: string where
  "quoted_host = [CHR ''a'', CHR 0x22, CHR ''b'']"

definition ok_handler :: handler where
  "ok_handler w r = ([CallWriteHeader 200, CallWrite ''ok''], False)"

definition silent_handler :: handler where
  "silent_handler w r = ([], False)"

lemmas run_defs = addctx_def addctx_body_def bind_db_def load_site_def serve_def
  timeout_guard_def cancel_def timeout_t_def HasPrefix_def WithTimeout_def zdb_With_def
  WithSite_def zdb_ErrNoRows_def ErrPage_def status_page_def status_fields_def http_Error_def
  Write_def WriteHeader_def Header_Set_def apply_calls_def Quote_def quote_byte_def
  Site_def GetUser_def

lemmas ex_defs = the_site_def child_site_def dev_env_def prod_env_def down_env_def
  late_env_def pool_db_def bare_db_def new_writer_def bare_writer_def background_def
  get_def explain_request_def visitor_def quoted_host_def ok_handler_def silent_handler_def

section \<open>Properties\<close>

subsection \<open>Strings\<close>

lemma HasPrefix_iff: "HasPrefix s p \<longleftrightarrow> (\<exists>rest. s = p @ rest)"
  unfolding HasPrefix_def
  by (metis append_eq_conv_conj append_take_drop_id)



subsection \<open>The response writer\<close>

lemma Status_WriteHeader: "Status (WriteHeader c w) = (if Status w = 0 then c else Status w)"
  by (simp add: WriteHeader_def)

lemma Status_Write: "Status (Write b w) = (if Status w = 0 then 200 else Status w)"
  by (simp add: Write_def WriteHeader_def Let_def)

lemma Body_WriteHeader: "Body (WriteHeader c w) = Body w"
  by (simp add: WriteHeader_def)

lemma Body_Write: "Body (Write b w) = Body w @ b"
  by (simp add: Write_def WriteHeader_def Let_def)

lemma Header_WriteHeader: "Header (WriteHeader c w) = Header w"
  by (simp add: WriteHeader_def)

lemma Header_Write: "Header (Write b w) = Header w"
  by (simp add: Write_def WriteHeader_def Let_def)

lemma Status_Header_Set: "Status (Header_Set k v w) = Status w"
  by (simp add: Header_Set_def)

lemma Body_Header_Set: "Body (Header_Set k v w) = Body w"
  by (simp add: Header_Set_def)

lemmas writer_simps = Status_WriteHeader Status_Write Body_WriteHeader Body_Write
  Header_WriteHeader Header_Write Status_Header_Set Body_Header_Set

text \<open>A handler that has left the status unwritten has written no body either.\<close>

lemma apply_calls_unwritten:
  "Status (apply_calls cs w) = 0 \<Longrightarrow> Status w = 0 \<and> Body (apply_calls cs w) = Body w"
  unfolding apply_calls_def
proof (induction cs arbitrary: w)
  case Nil
  then show ?case by simp
next
  case (Cons c cs)
  from Cons.IH [OF Cons.prems [simplified]]
  show ?case by (cases c) (auto simp: writer_simps split: if_splits)
qed

lemma Status_timeout_guard:
  "Status (timeout_guard e w) =
     (if cancel e = DeadlineExceeded \<and> Status w = 0 then 504 else Status w)"
  by (simp add: timeout_guard_def writer_simps)


subsection \<open>The two paths of \<^verbatim>\<open>addctx\<close>\<close>

lemma res_trace_serve [simp]: "res_trace (serve next w r) = [EvServeNext (req_Context r)]"
  by (simp add: serve_def split: prod.splits)

lemma res_w_serve [simp]: "res_w (serve next w r) = apply_calls (fst (next w r)) w"
  by (simp add: serve_def split: prod.splits)

lemma res_panic_serve [simp]: "res_panic (serve next w r) = snd (next w r)"
  by (simp add: serve_def split: prod.splits)

lemmas body_defs = addctx_body_def bind_db_def load_site_def Let_def

lemma addctx_status:
  "req_Path r = ''/status'' \<Longrightarrow>
   addctx e db loadSite next w r =
     \<lparr>res_w = status_page e w, res_trace = [], res_panic = False\<rparr>"
  by (simp add: addctx_def)

lemma addctx_other:
  "req_Path r \<noteq> ''/status'' \<Longrightarrow>
   addctx e db loadSite next w r =
     (let b = addctx_body e db loadSite next w
                (WithTimeout (req_Context r) (timeout_t (req_Path r))) r
      in \<lparr>res_w = timeout_guard (ctx_Err e) (res_w b),
          res_trace = EvWithTimeout (timeout_t (req_Path r)) # res_trace b @ [EvCancel],
          res_panic = res_panic b\<rparr>)"
  by (simp add: addctx_def Let_def)

lemma body_no_timeout:
  "EvWithTimeout t \<notin> set (res_trace (addctx_body e db loadSite next w ctx r))"
  by (auto simp: body_defs split: sum.splits option.splits prod.splits list.splits if_splits)

lemma body_unwritten:
  "Status (res_w (addctx_body e db loadSite next w ctx r)) = 0 \<Longrightarrow>
   Body (res_w (addctx_body e db loadSite next w ctx r)) = Body w"
  by (auto simp: body_defs ErrPage_def writer_simps
      dest: apply_calls_unwritten
      split: sum.splits option.splits prod.splits list.splits if_splits)

section \<open>The claims\<close>

text \<open>
  C1, as amended.  For a request to any path but \<^verbatim>\<open>/status\<close> whose deadline context
  ends with \<open>DeadlineExceeded\<close>, let \<open>w1\<close> be the writer when the deferred function
  starts.  If \<open>w1\<close> has the method \<^verbatim>\<open>Status\<close> and a status has been written, the guard
  writes nothing.  In every other case it calls \<^verbatim>\<open>WriteHeader(504)\<close> and
  \<^verbatim>\<open>Write("Server timed out")\<close>: when no status has been written, the response gets
  status 504 and the body \<^verbatim>\<open>Server timed out\<close> after what the writer held on entry; when
  the writer has no method \<^verbatim>\<open>Status\<close>, the two calls are made on a committed response
  as well.
\<close>

theorem guard_deadline_exceeded:
  assumes "req_Path r \<noteq> ''/status''"
    and "ctx_Err e = Some DeadlineExceeded"
  shows "(let w1 = res_w (addctx_body e db loadSite next w
                 (WithTimeout (req_Context r) (timeout_t (req_Path r))) r)
          in res_w (addctx e db loadSite next w r) =
               (if is_statusWriter w1 \<and> Status w1 \<noteq> 0 then w1
                else Write ''Server timed out'' (WriteHeader 504 w1))
           \<and> (Status w1 = 0 \<longrightarrow>
                Status (res_w (addctx e db loadSite next w r)) = 504
              \<and> Body (res_w (addctx e db loadSite next w r)) = Body w @ ''Server timed out''))"
  using assms body_unwritten [of e db loadSite "next" w _ r]
  by (auto simp: addctx_other Let_def timeout_guard_def cancel_def writer_simps)

text \<open>
  A handler that writes nothing before the deadline passes gets the 504; one that has
  answered 200 on a writer with the method \<^verbatim>\<open>Status\<close> is left alone.
\<close>

theorem guard_deadline_exceeded_witness:
  "req_Path (get ''/'' ''x'') \<noteq> ''/status''
 \<and> ctx_Err late_env = Some DeadlineExceeded
 \<and> Status (res_w (addctx late_env pool_db True silent_handler new_writer (get ''/'' ''x''))) = 504
 \<and> Body (res_w (addctx late_env pool_db True silent_handler new_writer (get ''/'' ''x'')))
      = ''Server timed out''
 \<and> res_w (addctx late_env pool_db True ok_handler new_writer (get ''/'' ''x''))
      = new_writer\<lparr>Status := 200, Body := ''ok''\<rparr>"
  using guard_deadline_exceeded [of "get ''/'' ''x''" late_env pool_db True silent_handler new_writer]
    guard_deadline_exceeded [of "get ''/'' ''x''" late_env pool_db True ok_handler new_writer]
  by (simp add: run_defs ex_defs)

text \<open>
  C1 as stated fails: on a writer without the method \<^verbatim>\<open>Status\<close>, a handler has written
  status 200 and the body \<^verbatim>\<open>ok\<close> when the deadline passes, and the guard still writes its
  text after it.
\<close>

theorem guard_committed_counterexample:
  "req_Path (get ''/'' ''x'') \<noteq> ''/status''
 \<and> ctx_Err late_env = Some DeadlineExceeded
 \<and> Status (res_w (addctx_body late_env pool_db True ok_handler bare_writer
              (WithTimeout background 11) (get ''/'' ''x''))) = 200
 \<and> Body (res_w (addctx_body late_env pool_db True ok_handler bare_writer
            (WithTimeout background 11) (get ''/'' ''x''))) = ''ok''
 \<and> Body (res_w (addctx late_env pool_db True ok_handler bare_writer (get ''/'' ''x'')))
      = ''okServer timed out''"
  by (simp add: run_defs ex_defs)

text \<open>
  C2.  Outside production, with site loading on, when \<^verbatim>\<open>UnscopedList\<close> succeeds with
  exactly one site, a request that reaches the loading of the site (its path is not
  \<^verbatim>\<open>/status\<close> and the type assertion for a \<^verbatim>\<open>debug-explain\<close> cookie does not panic) is
  served with that site in its context, whatever its host and whatever \<^verbatim>\<open>ByHost\<close>
  answered; no error page is written and no error is logged.
\<close>

theorem dev_sole_site:
  assumes "\<not> cfg_Prod e" and "loadSite" and "req_Path r \<noteq> ''/status''"
    and "UnscopedList e = Inr [s]"
    and "map_of (req_Cookies r) ''debug-explain'' = None \<or> implements_DBCloser db"
  shows "fst (load_site e (req_Host r)) = Inr s
       \<and> (\<exists>ctx. EvServeNext ctx \<in> set (res_trace (addctx e db loadSite next w r))
              \<and> Site ctx = Some s)
       \<and> EvErrPage err \<notin> set (res_trace (addctx e db loadSite next w r))
       \<and> EvLogError lerr \<notin> set (res_trace (addctx e db loadSite next w r))"
  using assms
  by (auto simp: addctx_other body_defs Site_def WithSite_def zdb_With_def
      split: option.splits)

theorem dev_sole_site_witness:
  "\<not> cfg_Prod dev_env
 \<and> UnscopedList dev_env = Inr [the_site]
 \<and> ByHost dev_env ''nowhere.test'' = Inl ErrNoRows
 \<and> fst (load_site dev_env ''nowhere.test'') = Inr the_site
 \<and> EvServeNext \<lparr>ctx_timeout = Some 11, ctx_db = Some (PlainDB pool_db),
                  ctx_site = Some the_site, ctx_user = None\<rparr>
      \<in> set (res_trace (addctx dev_env pool_db True ok_handler new_writer (get ''/'' ''nowhere.test'')))
 \<and> EvErrPage (DBError ErrNoRows)
      \<notin> set (res_trace (addctx dev_env pool_db True ok_handler new_writer (get ''/'' ''nowhere.test'')))"
  using dev_sole_site [of dev_env True "get ''/'' ''nowhere.test''" the_site pool_db
      ok_handler new_writer "DBError ErrNoRows" ErrNoRows]
  by (simp add: run_defs ex_defs)

text \<open>
  C3.  With site loading on, when the loading of the site fails with an error that is
  not \<^verbatim>\<open>sql.ErrNoRows\<close>, the error is logged, then handed to the error page as it is
  (which answers 500 on a writer with no status written), and the downstream handler is
  not called.
\<close>

theorem lookup_failure_500:
  assumes "loadSite" and "req_Path r \<noteq> ''/status''"
    and "cfg_Prod e \<or> map_of (req_Cookies r) ''debug-explain'' = None \<or> implements_DBCloser db"
    and "fst (load_site e (req_Host r)) = Inl err" and "\<not> zdb_ErrNoRows err"
    and "Status w = 0"
  shows "Status (res_w (addctx e db loadSite next w r)) = 500
       \<and> (\<exists>pre. res_trace (addctx e db loadSite next w r)
                  = pre @ [EvLogError err, EvErrPage (DBError err), EvCancel])
       \<and> EvServeNext ctx \<notin> set (res_trace (addctx e db loadSite next w r))"
  using assms
  apply (simp add: addctx_other Let_def Status_timeout_guard)
  apply (auto simp: addctx_body_def bind_db_def Let_def ErrPage_def writer_simps
      split: option.splits prod.splits sum.splits)
  apply (auto simp: load_site_def Let_def split: sum.splits list.splits if_splits)
  done

theorem lookup_failure_500_witness:
  "fst (load_site down_env ''stats.example.com'') = Inl (ErrOther ''connection refused'')
 \<and> \<not> zdb_ErrNoRows (ErrOther ''connection refused'')
 \<and> Status (res_w (addctx down_env pool_db True ok_handler new_writer
                     (get ''/'' ''stats.example.com''))) = 500
 \<and> EvServeNext background
      \<notin> set (res_trace (addctx down_env pool_db True ok_handler new_writer
                          (get ''/'' ''stats.example.com'')))"
  using lookup_failure_500 [of True "get ''/'' ''stats.example.com''" down_env pool_db
      "ErrOther ''connection refused''" new_writer ok_handler background]
  by (simp add: ex_defs load_site_def zdb_ErrNoRows_def)

text \<open>
  C4.  A request to any path but \<^verbatim>\<open>/status\<close> sets one deadline, of 120 seconds when the
  path starts with \<^verbatim>\<open>/admin\<close>, of 11 seconds when the path is \<^verbatim>\<open>/\<close>, of 3 seconds for
  every other path.
\<close>

theorem timeout_budget:
  assumes "req_Path r \<noteq> ''/status''"
  shows "EvWithTimeout t \<in> set (res_trace (addctx e db loadSite next w r)) \<longleftrightarrow>
         t = (if HasPrefix (req_Path r) ''/admin'' then 120
              else if req_Path r = ''/'' then 11 else 3)"
  using assms body_no_timeout [of t e db loadSite "next" w]
  by (auto simp: addctx_other Let_def timeout_t_def)

theorem timeout_budget_witness:
  "EvWithTimeout 120
     \<in> set (res_trace (addctx dev_env pool_db True ok_handler new_writer (get ''/admin/sites'' ''x'')))
 \<and> EvWithTimeout 11
     \<in> set (res_trace (addctx dev_env pool_db True ok_handler new_writer (get ''/'' ''x'')))
 \<and> EvWithTimeout 3
     \<in> set (res_trace (addctx dev_env pool_db True ok_handler new_writer (get ''/count'' ''x'')))
 \<and> EvWithTimeout 120
     \<notin> set (res_trace (addctx dev_env pool_db True ok_handler new_writer (get ''/count'' ''x'')))"
  using timeout_budget [of "get ''/admin/sites'' ''x''" 120 dev_env pool_db True ok_handler new_writer]
    timeout_budget [of "get ''/'' ''x''" 11 dev_env pool_db True ok_handler new_writer]
    timeout_budget [of "get ''/count'' ''x''" 3 dev_env pool_db True ok_handler new_writer]
    timeout_budget [of "get ''/count'' ''x''" 120 dev_env pool_db True ok_handler new_writer]
  by (simp add: get_def HasPrefix_def)




text \<open>
  C6.  A request to \<^verbatim>\<open>/status\<close> is answered with no call to a collaborator: no deadline
  is set, no database bound, no site loaded, no handler called.  The map that is
  serialised has the three keys \<^verbatim>\<open>uptime\<close>, \<^verbatim>\<open>version\<close> and \<^verbatim>\<open>last_persisted_at\<close>.  When
  \<^verbatim>\<open>json.Marshal\<close> succeeds, the answer (on a writer with no status written) is 200 with
  \<^verbatim>\<open>Content-Type: application/json\<close> and the serialised map as body; when it fails, the
  answer is 500 with the text of the error, as \<^verbatim>\<open>http.Error\<close> writes it.
\<close>

theorem status_probe:
  assumes "req_Path r = ''/status''"
  shows "res_trace (addctx e db loadSite next w r) = []
       \<and> \<not> res_panic (addctx e db loadSite next w r)
       \<and> map fst (status_fields e) = [''uptime'', ''version'', ''last_persisted_at'']
       \<and> (json_Marshal e (status_fields e) = Inr j \<and> Status w = 0 \<longrightarrow>
            Status (res_w (addctx e db loadSite next w r)) = 200
          \<and> Header (res_w (addctx e db loadSite next w r)) ''Content-Type''
              = Some ''application/json''
          \<and> Body (res_w (addctx e db loadSite next w r)) = Body w @ j)
       \<and> (json_Marshal e (status_fields e) = Inl err \<and> Status w = 0 \<longrightarrow>
            Status (res_w (addctx e db loadSite next w r)) = 500
          \<and> Body (res_w (addctx e db loadSite next w r)) = Body w @ err @ [CHR 0x0A])"
  using assms
  by (auto simp: addctx_status status_page_def status_fields_def http_Error_def writer_simps
      Header_Set_def)

theorem status_probe_witness:
  "req_Path (get ''/status'' ''nowhere.test'') = ''/status''
 \<and> json_Marshal dev_env (status_fields dev_env)
      = Inr ''uptime=1s;version=dev;last_persisted_at=1970-01-01T00:00:00Z;''
 \<and> Status new_writer = 0
 \<and> Status (res_w (addctx dev_env pool_db True ok_handler new_writer
                     (get ''/status'' ''nowhere.test''))) = 200
 \<and> Body (res_w (addctx dev_env pool_db True ok_handler new_writer
                   (get ''/status'' ''nowhere.test'')))
      = ''uptime=1s;version=dev;last_persisted_at=1970-01-01T00:00:00Z;''
 \<and> json_Marshal (dev_env\<lparr>json_Marshal := (\<lambda>kvs. Inl ''unsupported value'')\<rparr>)
      (status_fields dev_env) = Inl ''unsupported value''
 \<and> Status (res_w (addctx (dev_env\<lparr>json_Marshal := (\<lambda>kvs. Inl ''unsupported value'')\<rparr>)
                     pool_db True ok_handler new_writer
                     (get ''/status'' ''nowhere.test''))) = 500"
  using status_probe [of "get ''/status'' ''nowhere.test''" dev_env pool_db True ok_handler
      new_writer "''uptime=1s;version=dev;last_persisted_at=1970-01-01T00:00:00Z;''" "[]"]
    status_probe [of "get ''/status'' ''nowhere.test''"
      "dev_env\<lparr>json_Marshal := (\<lambda>kvs. Inl ''unsupported value'')\<rparr>" pool_db True ok_handler
      new_writer "[]" "''unsupported value''"]
  by (simp add: ex_defs status_fields_def)

text \<open>
  C7.  For a request whose context has a site and whose user is absent or has ID 0,
  \<^verbatim>\<open>loggedInOrPublic\<close> passes exactly when the site's \<^verbatim>\<open>Settings.Public\<close> is set;
  otherwise it sets the flash message and returns the error 303 with \<^verbatim>\<open>/user/new\<close>.
\<close>

theorem loggedInOrPublic_unauthenticated:
  assumes "GetUser (req_Context r) = None
         \<or> (\<exists>u. GetUser (req_Context r) = Some u \<and> user_ID u = 0)"
    and "Site (req_Context r) = Some s"
  shows "(fst (loggedInOrPublic r) = Pass \<longleftrightarrow> Public (site_Settings s))
       \<and> (\<not> Public (site_Settings s) \<longrightarrow>
            loggedInOrPublic r
              = (Abort (Guru 303 ''/user/new''), [EvFlash ''Need to log in'']))"
  using assms
  by (auto simp: loggedInOrPublic_def authenticated_def redirect_def)

theorem loggedInOrPublic_unauthenticated_witness:
  "GetUser (req_Context (visitor the_site)) = Some \<lparr>user_ID = 0\<rparr>
 \<and> Site (req_Context (visitor the_site)) = Some the_site
 \<and> Public (site_Settings the_site)
 \<and> fst (loggedInOrPublic (visitor the_site)) = Pass
 \<and> \<not> Public (site_Settings child_site)
 \<and> loggedInOrPublic (visitor child_site)
      = (Abort (Guru 303 ''/user/new''), [EvFlash ''Need to log in''])"
  using loggedInOrPublic_unauthenticated [of "visitor the_site" the_site]
    loggedInOrPublic_unauthenticated [of "visitor child_site" child_site]
  by (simp add: ex_defs GetUser_def Site_def)

text \<open>
  C8.  For a request whose context has a site, \<^verbatim>\<open>noSubSites\<close> returns an error 403
  exactly when the site's \<^verbatim>\<open>Parent\<close> is not nil and not 0, after logging; otherwise it
  passes.
\<close>

theorem noSubSites_child:
  assumes "Site (req_Context r) = Some s"
  shows "((\<exists>msg. fst (noSubSites r) = Abort (Guru 403 msg))
            \<longleftrightarrow> (\<exists>p. site_Parent s = Some p \<and> p \<noteq> 0))
       \<and> ((\<exists>p. site_Parent s = Some p \<and> p \<noteq> 0) \<longrightarrow>
            noSubSites r = (Abort (Guru 403 ''child sites can't access this''),
                            [EvLogErrorf ''noSubSites'']))
       \<and> (\<not> (\<exists>p. site_Parent s = Some p \<and> p \<noteq> 0) \<longrightarrow> noSubSites r = (Pass, []))"
  using assms
  by (auto simp: noSubSites_def)

theorem noSubSites_child_witness:
  "Site (req_Context (visitor child_site)) = Some child_site
 \<and> site_Parent child_site = Some 1
 \<and> fst (noSubSites (visitor child_site)) = Abort (Guru 403 ''child sites can't access this'')
 \<and> site_Parent the_site = None
 \<and> noSubSites (visitor the_site) = (Pass, [])
 \<and> noSubSites (visitor (child_site\<lparr>site_Parent := Some 0\<rparr>)) = (Pass, [])"
  using noSubSites_child [of "visitor child_site" child_site]
    noSubSites_child [of "visitor the_site" the_site]
    noSubSites_child [of "visitor (child_site\<lparr>site_Parent := Some 0\<rparr>)"
      "child_site\<lparr>site_Parent := Some 0\<rparr>"]
  by (simp add: ex_defs Site_def)

text \<open>
  C9.  Outside production the result of \<^verbatim>\<open>ByHost\<close>, a site or an error, is replaced by
  the only site when \<^verbatim>\<open>UnscopedList\<close> succeeds with exactly one; when
  \<^verbatim>\<open>UnscopedList\<close> fails or lists another number of sites, the result of \<^verbatim>\<open>ByHost\<close>
  stands.  The loading calls \<^verbatim>\<open>ByHost\<close> and \<^verbatim>\<open>UnscopedList\<close> and nothing else, and the
  only error a request ever logs is the one of \<^verbatim>\<open>ByHost\<close>.
\<close>

theorem load_site_dev:
  assumes "\<not> cfg_Prod e"
  shows "(UnscopedList e = Inr [s] \<longrightarrow> fst (load_site e host) = Inr s)
       \<and> (UnscopedList e = Inl lerr \<longrightarrow> fst (load_site e host) = ByHost e host)
       \<and> (UnscopedList e = Inr ss \<and> length ss \<noteq> 1 \<longrightarrow>
            fst (load_site e host) = ByHost e host)
       \<and> snd (load_site e host) = [EvByHost host, EvUnscopedList]
       \<and> (EvLogError x \<in> set (res_trace (addctx e db loadSite next w r)) \<longrightarrow>
            ByHost e (req_Host r) = Inl x)"
proof -
  have a: "UnscopedList e = Inr [s] \<longrightarrow> fst (load_site e host) = Inr s"
    using assms by (simp add: load_site_def)
  have b: "UnscopedList e = Inl lerr \<longrightarrow> fst (load_site e host) = ByHost e host"
    using assms by (simp add: load_site_def)
  have c: "UnscopedList e = Inr ss \<and> length ss \<noteq> 1 \<longrightarrow>
           fst (load_site e host) = ByHost e host"
    using assms by (auto simp: load_site_def Let_def split: list.splits)
  have d: "snd (load_site e host) = [EvByHost host, EvUnscopedList]"
    using assms by (auto simp: load_site_def Let_def split: sum.splits list.splits)
  have f: "ByHost e (req_Host r) = Inl x"
    if "EvLogError x \<in> set (res_trace (addctx e db loadSite next w r))"
  proof (cases "req_Path r = ''/status''")
    case True
    with that show ?thesis by (simp add: addctx_status)
  next
    case False
    with that assms show ?thesis
      by (auto simp: addctx_other body_defs
          split: option.splits sum.splits list.splits if_splits)
  qed
  from a b c d f show ?thesis by blast
qed

theorem load_site_dev_witness:
  "\<not> cfg_Prod dev_env
 \<and> UnscopedList dev_env = Inr [the_site]
 \<and> ByHost dev_env ''stats.example.com'' = Inr child_site
 \<and> fst (load_site dev_env ''stats.example.com'') = Inr the_site
 \<and> UnscopedList (dev_env\<lparr>UnscopedList := Inl (ErrOther ''connection refused'')\<rparr>)
      = Inl (ErrOther ''connection refused'')
 \<and> fst (load_site (dev_env\<lparr>UnscopedList := Inl (ErrOther ''connection refused'')\<rparr>)
          ''stats.example.com'') = Inr child_site
 \<and> length [the_site, child_site] \<noteq> 1
 \<and> fst (load_site (dev_env\<lparr>UnscopedList := Inr [the_site, child_site]\<rparr>) ''nowhere.test'')
      = Inl ErrNoRows"
  using load_site_dev [of dev_env the_site "''stats.example.com''"]
    load_site_dev [of "dev_env\<lparr>UnscopedList := Inl (ErrOther ''connection refused'')\<rparr>" _
      "''stats.example.com''"]
    load_site_dev [of "dev_env\<lparr>UnscopedList := Inr [the_site, child_site]\<rparr>" _
      "''nowhere.test''"]
  by (simp add: ex_defs)

text \<open>
  C10.  Outside production, a request to any path but \<^verbatim>\<open>/status\<close> with a cookie
  \<^verbatim>\<open>debug-explain\<close> has the database cast with \<^verbatim>\<open>db.(zdb.DBCloser)\<close>: when the database
  does not implement \<^verbatim>\<open>zdb.DBCloser\<close> the request panics, after the plain database was
  bound and before any site is loaded or handler called; when it does, the explaining
  database is bound.
\<close>

theorem explain_type_assertion:
  assumes "\<not> cfg_Prod e" and "req_Path r \<noteq> ''/status''"
    and "map_of (req_Cookies r) ''debug-explain'' = Some v"
  shows "(\<not> implements_DBCloser db \<longrightarrow>
            res_panic (addctx e db loadSite next w r)
          \<and> res_trace (addctx e db loadSite next w r)
              = [EvWithTimeout (timeout_t (req_Path r)), EvBindDB (PlainDB db), EvCancel])
       \<and> (implements_DBCloser db \<longrightarrow>
            EvBindDB (ExplainDB db v) \<in> set (res_trace (addctx e db loadSite next w r)))"
  using assms
  by (auto simp: addctx_other body_defs split: prod.splits sum.splits)

theorem explain_type_assertion_witness:
  "\<not> cfg_Prod dev_env
 \<and> map_of (req_Cookies explain_request) ''debug-explain'' = Some ''1''
 \<and> \<not> implements_DBCloser bare_db
 \<and> res_panic (addctx dev_env bare_db True ok_handler new_writer explain_request)
 \<and> implements_DBCloser pool_db
 \<and> EvBindDB (ExplainDB pool_db ''1'')
      \<in> set (res_trace (addctx dev_env pool_db True ok_handler new_writer explain_request))"
  using explain_type_assertion [of dev_env explain_request "''1''" bare_db True ok_handler
      new_writer]
    explain_type_assertion [of dev_env explain_request "''1''" pool_db True ok_handler
      new_writer]
  by (simp add: ex_defs)

end
